theory Spec2Isabelle
  imports Complex_Main "HOL-Library.Multiset"
begin

section \<open>Python values, errors and text primitives\<close>

text \<open>
  Text is modelled as \<open>string\<close>. The character tests below are Python's \<open>str\<close> tests
  restricted to ASCII (\<open>isspace\<close>, \<open>isdigit\<close>, \<open>isupper\<close>, \<open>lower\<close>, \<open>upper\<close>); the model is
  exact on ASCII text. Characters from 128 on are treated as plain symbols.
\<close>

datatype error = ValueError string | IndexError string | ExternalError string


datatype pyval = PInt int | PStr string

type_synonym metadata = "string \<rightharpoonup> pyval"

definition nl :: char where
  "nl = CHR 0x0A"

definition is_space :: "char \<Rightarrow> bool" where
  "is_space c = (let n = (of_char c :: nat) in (9 \<le> n \<and> n \<le> 13) \<or> (28 \<le> n \<and> n \<le> 32))"

definition is_digit :: "char \<Rightarrow> bool" where
  "is_digit c = (let n = (of_char c :: nat) in 48 \<le> n \<and> n \<le> 57)"

definition is_upper :: "char \<Rightarrow> bool" where
  "is_upper c = (let n = (of_char c :: nat) in 65 \<le> n \<and> n \<le> 90)"

definition is_lower :: "char \<Rightarrow> bool" where
  "is_lower c = (let n = (of_char c :: nat) in 97 \<le> n \<and> n \<le> 122)"

definition to_lower :: "char \<Rightarrow> char" where
  "to_lower c = (if is_upper c then char_of ((of_char c :: nat) + 32) else c)"

definition to_upper :: "char \<Rightarrow> char" where
  "to_upper c = (if is_lower c then char_of ((of_char c :: nat) - 32) else c)"

definition lower :: "string \<Rightarrow> string" where
  "lower s = map to_lower s"

text \<open>\<open>s.strip(chars)\<close> and \<open>s.strip()\<close>: drop the characters of the set at both ends.\<close>

definition strip_chars :: "(char \<Rightarrow> bool) \<Rightarrow> string \<Rightarrow> string" where
  "strip_chars p s = rev (dropWhile p (rev (dropWhile p s)))"

definition strip :: "string \<Rightarrow> string" where
  "strip s = strip_chars is_space s"

text \<open>\<open>s.split()\<close>: the maximal runs of non-whitespace characters, in order.\<close>

fun split_acc :: "string \<Rightarrow> string \<Rightarrow> string list" where
  "split_acc w [] = (if w = [] then [] else [w])"
| "split_acc w (c # cs) =
     (if is_space c then (if w = [] then split_acc [] cs else w # split_acc [] cs)
      else split_acc (w @ [c]) cs)"

definition split :: "string \<Rightarrow> string list" where
  "split s = split_acc [] s"

text \<open>Slice indices as CPython adjusts them against the length, \<open>s[i:j]\<close> and
  \<open>s.rfind(c, i, j)\<close> for a one-character needle (\<open>-1\<close> when absent).\<close>

definition adjust_index :: "int \<Rightarrow> nat \<Rightarrow> nat" where
  "adjust_index i n = (if i < 0 then nat (max 0 (i + int n)) else min (nat i) n)"

definition slice :: "string \<Rightarrow> int \<Rightarrow> int \<Rightarrow> string" where
  "slice s i j = (let a = adjust_index i (length s); b = adjust_index j (length s)
                  in take (b - a) (drop a s))"

definition rfind :: "string \<Rightarrow> char \<Rightarrow> int \<Rightarrow> int \<Rightarrow> int" where
  "rfind s c i j = (let a = adjust_index i (length s); b = adjust_index j (length s)
                    in case filter (\<lambda>k. s ! k = c) (rev [a ..< b]) of
                         [] \<Rightarrow> - 1
                       | k # _ \<Rightarrow> int k)"

section \<open>Regular expressions as the source uses them\<close>

text \<open>
  The patterns of the source use literals, character classes, greedy \<open>?\<close>, greedy \<open>*\<close> and
  \<open>+\<close> over one class, the lazy \<open>.*?\<close>, alternation and a leading \<open>^\<close>. The matcher is the
  backtracking search of \<open>re\<close>: it returns the rest of the text after the first match in
  priority order. \<open>ic\<close> is \<open>re.IGNORECASE\<close>.
\<close>

datatype regex =
    Lit string
  | Cls "char \<Rightarrow> bool"
  | Opt regex
  | Star "char \<Rightarrow> bool"
  | Plus "char \<Rightarrow> bool"
  | Lazy "char \<Rightarrow> bool"
  | Alt regex regex
  | Seq regex regex

definition cat :: "regex list \<Rightarrow> regex" where
  "cat rs = foldr Seq rs (Lit [])"

definition one_of :: "string \<Rightarrow> char \<Rightarrow> bool" where
  "one_of cs c = (c \<in> set cs)"

definition dot :: "char \<Rightarrow> bool" where
  "dot c = (c \<noteq> nl)"

definition chr_ok :: "bool \<Rightarrow> char \<Rightarrow> char \<Rightarrow> bool" where
  "chr_ok ic a c = (if ic then to_lower a = to_lower c else a = c)"

definition cls_ok :: "bool \<Rightarrow> (char \<Rightarrow> bool) \<Rightarrow> char \<Rightarrow> bool" where
  "cls_ok ic p c = (p c \<or> (ic \<and> (p (to_lower c) \<or> p (to_upper c))))"

fun lit_match :: "bool \<Rightarrow> string \<Rightarrow> string \<Rightarrow> string option" where
  "lit_match ic [] s = Some s"
| "lit_match ic (a # as) [] = None"
| "lit_match ic (a # as) (c # cs) = (if chr_ok ic a c then lit_match ic as cs else None)"

fun star_match :: "(char \<Rightarrow> bool) \<Rightarrow> string \<Rightarrow> (string \<Rightarrow> string option) \<Rightarrow> string option" where
  "star_match p [] k = k []"
| "star_match p (c # cs) k =
     (if p c then (case star_match p cs k of Some r \<Rightarrow> Some r | None \<Rightarrow> k (c # cs))
      else k (c # cs))"

fun lazy_match :: "(char \<Rightarrow> bool) \<Rightarrow> string \<Rightarrow> (string \<Rightarrow> string option) \<Rightarrow> string option" where
  "lazy_match p [] k = k []"
| "lazy_match p (c # cs) k =
     (case k (c # cs) of Some r \<Rightarrow> Some r
      | None \<Rightarrow> if p c then lazy_match p cs k else None)"

primrec rmatch :: "bool \<Rightarrow> regex \<Rightarrow> string \<Rightarrow> (string \<Rightarrow> string option) \<Rightarrow> string option" where
  "rmatch ic (Lit l) s k = (case lit_match ic l s of None \<Rightarrow> None | Some r \<Rightarrow> k r)"
| "rmatch ic (Cls p) s k =
     (case s of [] \<Rightarrow> None | c # cs \<Rightarrow> if cls_ok ic p c then k cs else None)"
| "rmatch ic (Opt r) s k = (case rmatch ic r s k of Some x \<Rightarrow> Some x | None \<Rightarrow> k s)"
| "rmatch ic (Star p) s k = star_match (cls_ok ic p) s k"
| "rmatch ic (Plus p) s k =
     (case s of [] \<Rightarrow> None
      | c # cs \<Rightarrow> if cls_ok ic p c then star_match (cls_ok ic p) cs k else None)"
| "rmatch ic (Lazy p) s k = lazy_match (cls_ok ic p) s k"
| "rmatch ic (Alt a b) s k = (case rmatch ic a s k of Some x \<Rightarrow> Some x | None \<Rightarrow> rmatch ic b s k)"
| "rmatch ic (Seq a b) s k = rmatch ic a s (\<lambda>t. rmatch ic b t k)"

text \<open>
  \<open>re.sub(pattern, repl, text)\<close>: scan from the left, replace each match and go on after it;
  an empty match is replaced too and the scan moves one character on. \<open>anch\<close> says that the
  pattern starts with \<open>^\<close>, which matches at the start of the text only.
\<close>

function re_sub_from :: "bool \<Rightarrow> bool \<Rightarrow> regex \<Rightarrow> string \<Rightarrow> bool \<Rightarrow> string \<Rightarrow> string" where
  "re_sub_from ic anch r repl at_start s =
     (case (if anch \<and> \<not> at_start then None else rmatch ic r s Some) of
        Some rest \<Rightarrow>
          if length rest < length s then repl @ re_sub_from ic anch r repl False rest
          else (case s of [] \<Rightarrow> repl | c # cs \<Rightarrow> repl @ c # re_sub_from ic anch r repl False cs)
      | None \<Rightarrow> (case s of [] \<Rightarrow> [] | c # cs \<Rightarrow> c # re_sub_from ic anch r repl False cs))"
  by pat_completeness auto
termination
  by (relation "measure (\<lambda>(ic, anch, r, repl, at_start, s). length s)") auto

definition re_sub :: "bool \<Rightarrow> bool \<Rightarrow> regex \<Rightarrow> string \<Rightarrow> string \<Rightarrow> string" where
  "re_sub ic anch r repl s = re_sub_from ic anch r repl True s"


section \<open>Answer cleaning (services/llm_service.py)\<close>

definition chunk_ref :: "regex list" where
  \<comment> \<open>\<open>[Cc]hunk \d+\<close>\<close>
  "chunk_ref = [Cls (one_of ''Cc''), Lit ''hunk '', Plus is_digit]"

definition tail_to_period :: "regex list" where
  \<comment> \<open>\<open>.*?\.?\<close>\<close>
  "tail_to_period = [Lazy dot, Opt (Lit ''.'')]"

definition verbose_patterns :: "regex list" where
  "verbose_patterns =
    [cat [Cls (one_of ''Bb''), Lit ''ased on the provided document context'', Opt (Lit '',''), Star is_space],
     cat [Cls (one_of ''Aa''), Lit ''ccording to the document'', Opt (Lit '',''), Star is_space],
     cat [Cls (one_of ''Aa''), Lit ''ccording to the policy'', Opt (Lit '',''), Star is_space],
     cat [Cls (one_of ''Aa''), Lit ''ccording to the provided document context'', Opt (Lit '',''), Star is_space],
     cat [Cls (one_of ''Tt''), Lit ''he document states that'', Star is_space],
     cat [Cls (one_of ''Ff''), Lit ''rom the provided context'', Opt (Lit '',''), Star is_space],
     cat [Cls (one_of ''Ii''), Lit ''n the document'', Opt (Lit '',''), Star is_space],
     cat [Cls (one_of ''Aa''), Lit ''s per the policy'', Opt (Lit '',''), Star is_space],
     cat [Cls (one_of ''Tt''), Lit ''he policy states that'', Star is_space]]"

definition chunk_patterns :: "regex list" where
  "chunk_patterns =
    [cat ([Star is_space, Cls (one_of ''Tt''), Lit ''his is stated in ''] @ chunk_ref @ tail_to_period),
     cat ([Star is_space, Cls (one_of ''Aa''), Lit ''s mentioned in ''] @ chunk_ref @ tail_to_period),
     cat ([Star is_space, Lit ''and reiterated in ''] @ chunk_ref @ tail_to_period),
     cat ([Star is_space, Lit ''(''] @ chunk_ref @ [Lazy dot, Lit '')'']),
     cat ([Star is_space, Cls (one_of ''Aa''), Lit ''ccording to ''] @ chunk_ref @ tail_to_period),
     cat ([Star is_space] @ chunk_ref @
          [Lit '' '', Alt (Lit ''states'') (Alt (Lit ''mentions'') (Lit ''indicates''))] @ tail_to_period),
     cat ([Star is_space, Cls (one_of ''Bb''), Lit ''ased on ''] @ chunk_ref @ tail_to_period),
     cat ([Star is_space, Cls (one_of ''Ii''), Lit ''n ''] @ chunk_ref @ tail_to_period),
     cat ([Star is_space, Cls (one_of ''Ff''), Lit ''rom ''] @ chunk_ref @ tail_to_period),
     cat ([Star is_space] @ chunk_ref @ [Cls (\<lambda>c. one_of '':-'' c \<or> is_space c)])]"

definition section_chars :: "char \<Rightarrow> bool" where
  \<comment> \<open>\<open>[a-zA-Z0-9\.]\<close>\<close>
  "section_chars c = (is_lower c \<or> is_upper c \<or> is_digit c \<or> c = CHR ''.'')"

text \<open>
  \<open>_convert_bullets_to_text\<close>. The class \<open>[\*\-\<bullet>]\<close> of the source also holds the bullet
  U+2022, which is no ASCII character and so is not in the class here.
\<close>

definition convert_bullets_to_text :: "string \<Rightarrow> string" where
  "convert_bullets_to_text text =
    (let text = re_sub False False
                  (cat [Opt (Lit [nl]), Star is_space, Cls (one_of ''*-''), Star is_space]) '' '' text;
         text = re_sub False False
                  (cat [Opt (Lit [nl]), Star is_space, Plus is_digit, Lit ''.'', Star is_space]) '' '' text;
         text = re_sub False False (Plus is_space) '' '' text
     in text)"

definition capitalize_first :: "string \<Rightarrow> string" where
  \<comment> \<open>\<open>if cleaned and not cleaned[0].isupper(): cleaned = cleaned[0].upper() + cleaned[1:]\<close>\<close>
  "capitalize_first s = (case s of [] \<Rightarrow> [] | c # cs \<Rightarrow> if is_upper c then s else to_upper c # cs)"

definition ensure_period :: "string \<Rightarrow> string" where
  \<comment> \<open>\<open>if cleaned and not cleaned.endswith(('.', '!', '?')): cleaned += '.'\<close>\<close>
  "ensure_period s = (if s \<noteq> [] \<and> \<not> one_of ''.!?'' (last s) then s @ ''.'' else s)"

definition clean_chunk_references :: "string \<Rightarrow> string" where
  "clean_chunk_references text =
    (let cleaned = text;
         cleaned = fold (\<lambda>pattern c. re_sub True True pattern [] c) verbose_patterns cleaned;
         cleaned = fold (\<lambda>pattern c. re_sub True False pattern [] c) chunk_patterns cleaned;
         cleaned = convert_bullets_to_text cleaned;
         cleaned = re_sub True False
                     (cat [Star is_space, Lit ''as per Section '', Plus section_chars, Opt (Lit ''.'')]) [] cleaned;
         cleaned = re_sub True False
                     (cat [Star is_space, Lit ''under Section '', Plus section_chars, Opt (Lit ''.'')]) [] cleaned;
         cleaned = strip (re_sub False False (Plus is_space) '' '' cleaned);
         cleaned = re_sub False False (Plus (one_of ''.'')) ''.'' cleaned;
         cleaned = strip_chars (one_of '' .,'') cleaned;
         cleaned = capitalize_first cleaned;
         cleaned = ensure_period cleaned
     in cleaned)"


section \<open>Data model (models/schemas.py)\<close>

text \<open>
  \<open>DocumentChunk\<close> and \<open>ClauseMatch\<close> both carry \<open>content\<close> and \<open>metadata\<close>; the two fields are
  put into a common base record so that both classes keep the field names of the source.
\<close>

record content_model =
  content :: string
  metadata :: metadata

record document_chunk = content_model +
  chunk_id :: string
  page_number :: "int option"

record clause_match = content_model +
  similarity_score :: real
  source_reference :: string

text \<open>\<open>str(n)\<close> for a Python integer.\<close>

function str_nat :: "nat \<Rightarrow> string" where
  "str_nat n = (if n < 10 then [char_of (48 + n)] else str_nat (n div 10) @ [char_of (48 + n mod 10)])"
  by pat_completeness auto
termination
  by (relation "measure (\<lambda>n. n)") auto

definition str_int :: "int \<Rightarrow> string" where
  "str_int i = (if i < 0 then ''-'' @ str_nat (nat (- i)) else str_nat (nat i))"

text \<open>\<open>xs[i]\<close> for a Python list: a negative index counts from the end.\<close>

definition py_get :: "'a list \<Rightarrow> int \<Rightarrow> error + 'a" where
  "py_get xs i =
     (if 0 \<le> i \<and> i < int (length xs) then Inr (xs ! nat i)
      else if i < 0 \<and> - int (length xs) \<le> i then Inr (xs ! nat (int (length xs) + i))
      else Inl (IndexError ''list index out of range''))"

section \<open>Chunker (services/document_processor.py)\<close>

text \<open>
  \<open>_chunk_text\<close>. \<open>generate_chunk_id()\<close> draws a UUID; the model takes the supply of identifiers
  \<open>idgen\<close> and the number \<open>n\<close> of identifiers drawn so far, and returns the new count.
\<close>

definition normalize_text :: "string \<Rightarrow> string" where
  \<comment> \<open>\<open>re.sub(r'\s+', ' ', text).strip()\<close>\<close>
  "normalize_text text = strip (re_sub False False (Plus is_space) '' '' text)"

definition page_number_of :: "metadata \<Rightarrow> int option" where
  \<comment> \<open>\<open>metadata.get("page_number")\<close>; the callers store integers under this key\<close>
  "page_number_of md = (case md ''page_number'' of Some (PInt n) \<Rightarrow> Some n | _ \<Rightarrow> None)"

definition window_end :: "int \<Rightarrow> string \<Rightarrow> int \<Rightarrow> int" where
  "window_end chunk_size text start =
     (let e = start + chunk_size
      in if e < int (length text) then
           (let last_sentence = rfind text (CHR ''.'') start e;
                last_paragraph = rfind text nl start e
            in if last_sentence > start then last_sentence + 1
               else if last_paragraph > start then last_paragraph
               else e)
         else e)"

definition next_start :: "int \<Rightarrow> int \<Rightarrow> int \<Rightarrow> int" where
  \<comment> \<open>\<open>start = max(start + 1, end - self.chunk_overlap)\<close>\<close>
  "next_start chunk_overlap start e = max (start + 1) (e - chunk_overlap)"

definition loop_chunk :: "(nat \<Rightarrow> string) \<Rightarrow> metadata \<Rightarrow> string \<Rightarrow> int \<Rightarrow> nat \<Rightarrow> document_chunk" where
  "loop_chunk idgen md chunk_content chunk_num n =
     \<lparr>content = chunk_content, metadata = md(''chunk_number'' \<mapsto> PInt chunk_num),
      chunk_id = idgen n, page_number = page_number_of md\<rparr>"

partial_function (option) chunk_loop ::
  "int \<Rightarrow> int \<Rightarrow> (nat \<Rightarrow> string) \<Rightarrow> string \<Rightarrow> metadata \<Rightarrow> int \<Rightarrow> int \<Rightarrow> nat \<Rightarrow> document_chunk list
     \<Rightarrow> (document_chunk list \<times> nat) option" where
  "chunk_loop chunk_size chunk_overlap idgen text md start chunk_num n chunks =
     (if start < int (length text) then
        (let e = window_end chunk_size text start;
             chunk_content = strip (slice text start e)
         in if chunk_content \<noteq> [] then
              chunk_loop chunk_size chunk_overlap idgen text md (next_start chunk_overlap start e)
                (chunk_num + 1) (Suc n) (chunks @ [loop_chunk idgen md chunk_content chunk_num n])
            else
              chunk_loop chunk_size chunk_overlap idgen text md (next_start chunk_overlap start e)
                (chunk_num + 1) n chunks)
      else Some (chunks, n))"

definition chunk_text ::
  "int \<Rightarrow> int \<Rightarrow> (nat \<Rightarrow> string) \<Rightarrow> string \<Rightarrow> metadata \<Rightarrow> nat \<Rightarrow> (document_chunk list \<times> nat) option" where
  "chunk_text chunk_size chunk_overlap idgen text0 md n =
     (let text = normalize_text text0
      in if int (length text) \<le> chunk_size then
           Some ([\<lparr>content = text, metadata = md, chunk_id = idgen n,
                   page_number = page_number_of md\<rparr>], Suc n)
         else chunk_loop chunk_size chunk_overlap idgen text md 0 0 n [])"

section \<open>Retrieval optimizer (services/optimizer.py)\<close>

text \<open>
  The cache is a dictionary; \<open>hash\<close> (Python's string hash) and the clock \<open>now\<close>
  (\<open>time.time()\<close>) are taken as parameters. Times are real numbers.
\<close>

record cache_entry =
  result :: string
  timestamp :: real

type_synonym query_cache = "string \<rightharpoonup> cache_entry"

definition cache_key :: "(string \<Rightarrow> int) \<Rightarrow> string \<Rightarrow> string \<Rightarrow> string" where
  \<comment> \<open>\<open>f"{document_url}:{hash(query)}"\<close>\<close>
  "cache_key hash query document_url = document_url @ '':'' @ str_int (hash query)"

definition should_use_cache :: "(string \<Rightarrow> int) \<Rightarrow> query_cache \<Rightarrow> real \<Rightarrow> string \<Rightarrow> string \<Rightarrow> bool" where
  "should_use_cache hash query_cache now query document_url =
     (case query_cache (cache_key hash query document_url) of
        Some entry \<Rightarrow> now - timestamp entry < 3600
      | None \<Rightarrow> False)"

definition cache_result ::
  "(string \<Rightarrow> int) \<Rightarrow> query_cache \<Rightarrow> real \<Rightarrow> string \<Rightarrow> string \<Rightarrow> string \<Rightarrow> query_cache" where
  "cache_result hash query_cache now query document_url res =
     query_cache(cache_key hash query document_url \<mapsto> \<lparr>result = res, timestamp = now\<rparr>)"

text \<open>
  \<open>_calculate_text_similarity\<close>. The quotient of the two cardinalities is taken over the reals;
  Python rounds it to a double, and the comparison with \<open>0.8\<close> comes out the same for word
  sets below \<open>10^15\<close> elements.
\<close>

definition calculate_text_similarity :: "string \<Rightarrow> string \<Rightarrow> real" where
  "calculate_text_similarity text1 text2 =
     (let words1 = set (split (lower text1));
          words2 = set (split (lower text2));
          intersection = words1 \<inter> words2;
          union = words1 \<union> words2
      in if union = {} then 0 else real (card intersection) / real (card union))"

fun is_diverse :: "clause_match \<Rightarrow> clause_match list \<Rightarrow> bool" where
  "is_diverse chunk [] = True"
| "is_diverse chunk (selected # rest) =
     (if calculate_text_similarity (content chunk) (content selected) > 0.8 then False
      else is_diverse chunk rest)"

fun select_loop :: "clause_match list \<Rightarrow> clause_match list \<Rightarrow> clause_match list" where
  "select_loop selected_chunks [] = selected_chunks"
| "select_loop selected_chunks (chunk # rest) =
     (let selected_chunks = (if is_diverse chunk selected_chunks then selected_chunks @ [chunk]
                             else selected_chunks)
      in if length selected_chunks \<ge> 5 then selected_chunks else select_loop selected_chunks rest)"

definition sorted_chunks :: "clause_match list \<Rightarrow> clause_match list" where
  \<comment> \<open>\<open>sorted(chunks, key=lambda x: x.similarity_score, reverse=True)\<close>: descending and stable\<close>
  "sorted_chunks chunks = sort_key (\<lambda>x. - similarity_score x) chunks"

definition optimize_chunk_selection :: "clause_match list \<Rightarrow> string \<Rightarrow> clause_match list" where
  "optimize_chunk_selection chunks query =
     (if length chunks \<le> 3 then chunks
      else (case sorted_chunks chunks of
              [] \<Rightarrow> []
            | best # rest \<Rightarrow> select_loop [best] rest))"

text \<open>
  The selection as the specification words it: a candidate is admitted exactly when its
  Jaccard similarity with every match selected so far is at most \<open>0.8\<close>, and nothing more is
  admitted once five matches are selected.
\<close>

fun spec_admit :: "clause_match list \<Rightarrow> clause_match list \<Rightarrow> clause_match list" where
  "spec_admit selected [] = selected"
| "spec_admit selected (c # cs) =
     (if length selected \<ge> 5 then selected
      else if list_all (\<lambda>s. calculate_text_similarity (content c) (content s) \<le> 0.8) selected
           then spec_admit (selected @ [c]) cs
      else spec_admit selected cs)"


section \<open>Vector index (services/embedding_service.py)\<close>

text \<open>
  The sentence encoder, FAISS and the file system are outside the repository. They are the
  fields of an environment: \<open>encode\<close> is \<open>self.model.encode\<close>, \<open>build_index\<close> is normalising the
  vectors and adding them to the fresh index \<open>empty_index\<close>, \<open>index_search\<close> is normalising the
  query vector and \<open>self.index.search\<close>, returning the pairs of \<open>zip(scores[0], indices[0])\<close>.
  Each of them may raise.
\<close>

record ('idx, 'vec) environment =
  encode :: "string list \<Rightarrow> error + 'vec list"
  empty_index :: "'idx"
  build_index :: "'vec list \<Rightarrow> error + 'idx"
  index_search :: "'idx \<Rightarrow> 'vec list \<Rightarrow> int \<Rightarrow> error + (real \<times> int) list"
  path_exists :: "string \<Rightarrow> bool"
  read_index :: "string \<Rightarrow> error + 'idx"
  load_chunks :: "string \<Rightarrow> error + document_chunk list"
  client_generate :: "string \<Rightarrow> error + string"
  process_document :: "string \<Rightarrow> error + document_chunk list"

record 'idx embedding_service =
  index :: "'idx option"
  chunks :: "document_chunk list"

definition TOP_K_RESULTS :: int where
  "TOP_K_RESULTS = 5"


definition to_match :: "document_chunk \<Rightarrow> real \<Rightarrow> clause_match" where
  "to_match chunk score =
     \<lparr>content = content chunk, metadata = metadata chunk,
      similarity_score = score, source_reference = ''Chunk '' @ chunk_id chunk\<rparr>"

fun collect_matches :: "document_chunk list \<Rightarrow> (real \<times> int) list \<Rightarrow> error + clause_match list" where
  "collect_matches cs [] = Inr []"
| "collect_matches cs ((score, idx) # rest) =
     (if idx < int (length cs) then
        (case py_get cs idx of
           Inl e \<Rightarrow> Inl e
         | Inr chunk \<Rightarrow>
             (case collect_matches cs rest of
                Inl e \<Rightarrow> Inl e
              | Inr matches \<Rightarrow> Inr (to_match chunk score # matches)))
      else collect_matches cs rest)"

definition search_similar_chunks ::
  "('idx, 'vec) environment \<Rightarrow> 'idx embedding_service \<Rightarrow> string \<Rightarrow> int option
     \<Rightarrow> error + clause_match list" where
  "search_similar_chunks env self query top_k =
     (case index self of
        None \<Rightarrow> Inl (ValueError ''No embeddings index available. Create embeddings first.'')
      | Some idx \<Rightarrow>
          (let top_k = (case top_k of None \<Rightarrow> TOP_K_RESULTS | Some k \<Rightarrow> k)
           in case encode env [query] of
                Inl e \<Rightarrow> Inl e
              | Inr query_embedding \<Rightarrow>
                  (case index_search env idx query_embedding top_k of
                     Inl e \<Rightarrow> Inl e
                   | Inr hits \<Rightarrow> collect_matches (chunks self) hits)))"

definition load_index ::
  "('idx, 'vec) environment \<Rightarrow> 'idx embedding_service \<Rightarrow> string \<Rightarrow> bool \<times> 'idx embedding_service" where
  "load_index env self path =
     (if path_exists env (path @ ''.faiss'') \<and> path_exists env (path @ ''.chunks'') then
        (case read_index env (path @ ''.faiss'') of
           Inl e \<Rightarrow> (False, self)
         | Inr idx \<Rightarrow>
             (let self = self\<lparr>index := Some idx\<rparr>
              in case load_chunks env (path @ ''.chunks'') of
                   Inl e \<Rightarrow> (False, self)
                 | Inr cs \<Rightarrow> (True, self\<lparr>chunks := cs\<rparr>)))
      else (False, self))"

section \<open>Answer generator (services/llm_service.py)\<close>

definition page_annotation :: "metadata \<Rightarrow> string" where
  \<comment> \<open>\<open>if chunk.metadata.get('page_number'): chunk_text += f"(Page {...})\n"\<close>\<close>
  "page_annotation md =
     (case md ''page_number'' of
        None \<Rightarrow> []
      | Some (PInt n) \<Rightarrow> if n = 0 then [] else ''(Page '' @ str_int n @ '')'' @ [nl]
      | Some (PStr s) \<Rightarrow> if s = [] then [] else ''(Page '' @ s @ '')'' @ [nl])"

fun join :: "string \<Rightarrow> string list \<Rightarrow> string" where
  "join sep [] = []"
| "join sep [x] = x"
| "join sep (x # y # ys) = x @ sep @ join sep (y # ys)"

definition prepare_context :: "clause_match list \<Rightarrow> string" where
  "prepare_context cs =
     join ([nl] @ ''---'' @ [nl])
       (map (\<lambda>chunk. ''Document Section:'' @ [nl] @ content chunk @ [nl] @ page_annotation (metadata chunk)) cs)"

definition create_answer_prompt :: "string \<Rightarrow> string \<Rightarrow> string" where
  \<open>create_answer_prompt question context =
     join [nl]
       [''You are an expert document analyst. Based on the provided document context, answer the following question accurately and concisely.'',
        [],
        ''Question: '' @ question,
        [],
        ''Document Context:'',
        context,
        [],
        ''Instructions:'',
        ''1. Answer based ONLY on the information provided in the context'',
        ''2. Provide a direct, factual answer in 1-3 sentences maximum'',
        ''3. Do NOT use bullet points, lists, or extensive explanations'',
        ''4. Do NOT mention "Based on the provided document context" or similar phrases'',
        ''5. Do NOT mention chunk numbers, sections, or any document structure references'',
        ''6. Start your answer directly with the factual information'',
        ''7. Be concise and professional'',
        ''8. If multiple conditions exist, summarize them in flowing sentences, not lists'',
        ''9. Focus on the key facts that directly answer the question'',
        [],
        ''Answer:'']\<close>

definition generate_answer ::
  "('idx, 'vec) environment \<Rightarrow> string \<Rightarrow> clause_match list \<Rightarrow> error + string" where
  "generate_answer env question context_chunks =
     (let context = prepare_context context_chunks;
          prompt = create_answer_prompt question context
      in case client_generate env prompt of
           Inl e \<Rightarrow> Inl e
         | Inr response \<Rightarrow>
             (let answer = strip response;
                  cleaned_answer = clean_chunk_references answer
              in Inr cleaned_answer))"

section \<open>Query orchestrator (services/query_processor.py)\<close>

text \<open>
  \<open>DocumentProcessor.process_document\<close> downloads the document and extracts its text with
  external libraries before chunking; in the orchestrator it is the environment's
  \<open>process_document\<close>, which may raise.
\<close>

record 'idx query_processor =
  embedding_service :: "'idx embedding_service"
  current_document_url :: "string option"







section \<open>Concrete inputs used in the evaluations below\<close>

definition par_text :: string where
  \<comment> \<open>two paragraphs, no sentence terminator\<close>
  "par_text = ''Alpha beta'' @ [nl] @ ''gamma delta epsilon''"

definition sample_chunk :: document_chunk where
  "sample_chunk = \<lparr>content = ''The grace period is 30 days.'', metadata = Map.empty,
                    chunk_id = ''c0'', page_number = None\<rparr>"

definition sample_match :: clause_match where
  "sample_match = to_match sample_chunk 1"

text \<open>
  An environment over natural numbers as indices and vectors: the model answers every prompt
  with \<open>response\<close>, the document has the one chunk \<open>sample_chunk\<close>, no index file exists, and
  the search fails for queries of three characters and otherwise returns the only vector
  followed by the padding of a FAISS flat index (label \<open>-1\<close>, score \<open>-FLT_MAX\<close>).
\<close>

definition FLT_MAX :: real where
  "FLT_MAX = 340282346638528859811704183484516925440"

definition stub_env :: "string \<Rightarrow> (nat, nat) environment" where
  "stub_env response =
     \<lparr>encode = (\<lambda>texts. Inr (map length texts)),
      empty_index = 0,
      build_index = (\<lambda>vs. Inr (length vs)),
      index_search = (\<lambda>idx qv k. if qv = [3] then Inl (ExternalError ''search failed'')
                                  else Inr ((9 / 10, 0) # replicate (nat (k - 1)) (- FLT_MAX, - 1))),
      path_exists = (\<lambda>p. False),
      read_index = (\<lambda>p. Inl (ExternalError ''no such file'')),
      load_chunks = (\<lambda>p. Inl (ExternalError ''no such file'')),
      client_generate = (\<lambda>prompt. Inr response),
      process_document = (\<lambda>url. if url = ''empty'' then Inr [] else Inr [sample_chunk])\<rparr>"


definition mk_match :: "string \<Rightarrow> real \<Rightarrow> clause_match" where
  "mk_match text score = \<lparr>content = text, metadata = Map.empty, similarity_score = score,
                           source_reference = ''Chunk x''\<rparr>"

definition five_matches :: "clause_match list" where
  "five_matches =
     [mk_match ''a b c d e f'' (9 / 10),
      mk_match ''a b c d e f'' (8 / 10),
      mk_match ''a b c d e f g'' (7 / 10),
      mk_match ''A B C D E F'' (6 / 10),
      mk_match ''x y z'' (5 / 10)]"

text \<open>
  A second chunk, and an environment whose search over two vectors returns the second one
  first, then the first one, then the padding.
\<close>

definition second_chunk :: document_chunk where
  "second_chunk = \<lparr>content = ''Claims are filed in 60 days.'',
                    metadata = [''page_number'' \<mapsto> PInt 2],
                    chunk_id = ''c1'', page_number = Some 2\<rparr>"

definition padded_env :: "(nat, nat) environment" where
  "padded_env = (stub_env ''ok'')
     \<lparr>index_search := (\<lambda>idx qv k.
         Inr ([(9 / 10, 1), (7 / 10, 0)] @ replicate (nat (k - 2)) (- FLT_MAX, - 1)))\<rparr>"

section \<open>Chunker: termination, metadata and boundaries\<close>

lemma next_start_gt: "start < next_start ov start e"
  by (simp add: next_start_def)

lemma chunk_loop_returns:
  "\<exists>r. chunk_loop cs ov idgen t md start k n acc = Some r"
proof (induction "nat (int (length t) - start)" arbitrary: start k n acc rule: less_induct)
  case less
  show ?case
  proof (cases "start < int (length t)")
    case False
    then show ?thesis by (subst chunk_loop.simps) simp
  next
    case True
    let ?e = "window_end cs t start"
    have "nat (int (length t) - next_start ov start ?e) < nat (int (length t) - start)"
      using True next_start_gt [of start ov ?e] by linarith
    from less [OF this] show ?thesis
      using True by (subst chunk_loop.simps) (simp add: Let_def)
  qed
qed

text \<open>
  Claim C9. For every text and every \<open>chunk_size\<close> and \<open>chunk_overlap\<close> (any integers, so also
  an overlap at or above the window size) the chunker returns, and the start of the next
  window, \<open>max(start + 1, end - chunk_overlap)\<close>, is strictly beyond the current start.
\<close>

theorem chunk_text_terminates:
  "(\<exists>r. chunk_text chunk_size chunk_overlap idgen text md n = Some r)
   \<and> start < next_start chunk_overlap start e"
  using chunk_loop_returns by (simp add: chunk_text_def Let_def next_start_gt)

lemma normalize_grace: "normalize_text ''The grace period is 30 days.'' = ''The grace period is 30 days.''"
  by code_simp

text \<open>
  Claim C7, evaluated on a short text: with the default \<open>chunk_size = 1000\<close> the text
  \<open>The grace period is 30 days.\<close> gives one chunk whose metadata is the input metadata
  itself, with no \<open>chunk_number\<close> key. The claim asks for the key on this chunk too, as the
  loop for longer texts adds it.
\<close>

theorem chunk_text_single_chunk_has_no_chunk_number:
  "\<exists>c. chunk_text 1000 200 idgen ''The grace period is 30 days.''
          [''document_type'' \<mapsto> PStr ''text''] n = Some ([c], Suc n)
       \<and> content c = ''The grace period is 30 days.''
       \<and> chunk_id c = idgen n
       \<and> metadata c = [''document_type'' \<mapsto> PStr ''text'']
       \<and> metadata c ''chunk_number'' = None"
  by (simp add: chunk_text_def normalize_grace)

lemma normalize_par_text: "normalize_text par_text = ''Alpha beta gamma delta epsilon''"
  by code_simp

lemma par_window_1: "window_end 16 ''Alpha beta gamma delta epsilon'' 0 = 16"
  by code_simp

lemma par_window_2: "window_end 16 ''Alpha beta gamma delta epsilon'' 16 = 32"
  by code_simp

lemma par_slice_1: "strip (slice ''Alpha beta gamma delta epsilon'' 0 16) = ''Alpha beta gamma''"
  by code_simp

lemma par_slice_2: "strip (slice ''Alpha beta gamma delta epsilon'' 16 32) = ''delta epsilon''"
  by code_simp

text \<open>
  Claim C8, evaluated on a text with a paragraph break and no sentence terminator:
  \<open>par_text\<close> with \<open>chunk_size = 16\<close> and no overlap. The first window holds the paragraph
  break after \<open>Alpha beta\<close>, and the claim puts the boundary there; the chunker has replaced
  the break by a space before it looks for it, and cuts at the window's end.
\<close>

theorem chunk_text_ignores_paragraph_break:
  "\<exists>c1 c2. chunk_text 16 0 idgen par_text md 0 = Some ([c1, c2], 2)
      \<and> content c1 = ''Alpha beta gamma'' \<and> content c2 = ''delta epsilon''"
  apply (simp add: chunk_text_def normalize_par_text)
  apply (subst chunk_loop.simps, simp add: par_window_1 par_slice_1 next_start_def Let_def)
  apply (subst chunk_loop.simps, simp add: par_window_2 par_slice_2 next_start_def Let_def)
  apply (subst chunk_loop.simps, simp add: loop_chunk_def)
  done

section \<open>Vector index: loading\<close>

lemma load_index_untouched_when_nothing_read:
  "\<not> (path_exists env (path @ ''.faiss'') \<and> path_exists env (path @ ''.chunks''))
     \<or> isl (read_index env (path @ ''.faiss''))
   \<Longrightarrow> load_index env self path = (False, self)"
  by (auto simp: load_index_def split: sum.splits)

text \<open>
  Claim C4, evaluated where both files exist, the index file loads and reading the chunk
  file raises: \<open>load_index\<close> returns \<open>False\<close>, the index is the loaded one and the chunks are
  the old ones. The claim says that the state is as before whenever \<open>False\<close> is returned.
\<close>

theorem load_index_partial_overwrite:
  "load_index (env\<lparr>path_exists := \<lambda>p. True, read_index := \<lambda>p. Inr new_idx,
                   load_chunks := \<lambda>p. Inl e\<rparr>)
      \<lparr>index = old_idx, chunks = old_chunks\<rparr> path
   = (False, \<lparr>index = Some new_idx, chunks = old_chunks\<rparr>)"
  by (simp add: load_index_def)

section \<open>Answer generator: cleaning\<close>

lemma clean_it_is_30: "clean_chunk_references ''It is 30'' = ''It is 30.''"
  by code_simp

lemma clean_it_is_30_again: "clean_chunk_references ''It is 30.'' = ''It is.''"
  by code_simp

text \<open>
  Claim C5, evaluated on an output of the cleaning pass: \<open>It is 30.\<close> is what the pass
  returns for \<open>It is 30\<close>, and cleaning it again removes the number, since the pattern for
  numbered list items matches a number followed by the final period.
\<close>

theorem clean_chunk_references_not_idempotent:
  "clean_chunk_references ''It is 30'' = ''It is 30.''
   \<and> clean_chunk_references (clean_chunk_references ''It is 30'') = ''It is.''"
  by (simp add: clean_it_is_30 clean_it_is_30_again)

lemma clean_chunk_only: "clean_chunk_references (strip ''(Chunk 2)'') = []"
  by code_simp

lemma clean_ok: "clean_chunk_references (strip ''ok'') = ''Ok.''"
  by code_simp

lemma ensure_period_end: "ensure_period s = [] \<or> last (ensure_period s) \<in> set ''.!?''"
  by (auto simp: ensure_period_def one_of_def)

lemma clean_chunk_references_end:
  "clean_chunk_references t = [] \<or> last (clean_chunk_references t) \<in> set ''.!?''"
  unfolding clean_chunk_references_def Let_def by (rule ensure_period_end)

text \<open>
  Claim C6 as stated fails: when the model answers \<open>(Chunk 2)\<close>, cleaning leaves nothing and
  \<open>generate_answer\<close> returns the empty string, with no error.
\<close>

theorem generate_answer_returns_empty:
  "generate_answer (stub_env ''(Chunk 2)'') ''What is the grace period?'' [sample_match] = Inr []"
  by (simp add: generate_answer_def stub_env_def clean_chunk_only)

text \<open>
  Claim C6 as amended: whenever the model call returns a text, \<open>generate_answer\<close> returns the
  cleaned text and raises nothing, also when the cleaned text is empty; a cleaned text that
  is not empty ends with a period, an exclamation mark or a question mark.
\<close>

theorem generate_answer_returns_cleaned:
  assumes "client_generate env (create_answer_prompt question (prepare_context cs)) = Inr raw"
  shows "generate_answer env question cs = Inr (clean_chunk_references (strip raw))
         \<and> (clean_chunk_references (strip raw) = []
            \<or> last (clean_chunk_references (strip raw)) \<in> set ''.!?'')"
  using assms clean_chunk_references_end by (simp add: generate_answer_def)

theorem generate_answer_returns_cleaned_witness:
  "client_generate (stub_env ''ok'')
     (create_answer_prompt ''What is the grace period?'' (prepare_context [sample_match])) = Inr ''ok''
   \<and> generate_answer (stub_env ''ok'') ''What is the grace period?'' [sample_match] = Inr ''Ok.''"
proof -
  have h: "client_generate (stub_env ''ok'')
     (create_answer_prompt ''What is the grace period?'' (prepare_context [sample_match])) = Inr ''ok''"
    by (simp add: stub_env_def)
  show ?thesis
    using h generate_answer_returns_cleaned [OF h] by (simp add: clean_ok)
qed


section \<open>Retrieval optimizer: cache\<close>

text \<open>
  The decimal text of an integer determines the integer and holds no colon, so the key
  determines the URL and the hash.
\<close>

lemma str_nat_small: "n < 10 \<Longrightarrow> str_nat n = [char_of (48 + n)]"
  by (subst str_nat.simps) (simp del: str_nat.simps)

lemma str_nat_big: "\<not> n < 10 \<Longrightarrow> str_nat n = str_nat (n div 10) @ [char_of (48 + n mod 10)]"
  by (subst str_nat.simps) (simp del: str_nat.simps)

lemma digit_char: "d < 10 \<Longrightarrow> (of_char (char_of (48 + d) :: char) :: nat) = 48 + d"
  by simp

lemma str_nat_nonempty: "str_nat n \<noteq> []"
  by (cases "n < 10") (simp_all del: str_nat.simps add: str_nat_small str_nat_big)

lemma str_nat_digits: "c \<in> set (str_nat n) \<Longrightarrow> is_digit c"
proof (induction n rule: str_nat.induct)
  case (1 n)
  show ?case
  proof (cases "n < 10")
    case True
    with "1.prems" have "c = char_of (48 + n)"
      by (simp del: str_nat.simps add: str_nat_small)
    with True digit_char [of n] show ?thesis
      by (simp del: str_nat.simps add: is_digit_def)
  next
    case False
    have "n mod 10 < 10" by simp
    from digit_char [OF this] have d: "is_digit (char_of (48 + n mod 10))"
      by (simp del: str_nat.simps add: is_digit_def)
    from "1.prems" False have "c = char_of (48 + n mod 10) \<or> c \<in> set (str_nat (n div 10))"
      by (simp del: str_nat.simps add: str_nat_big)
    with d "1.IH" [OF False] show ?thesis by blast
  qed
qed

lemma str_nat_inj: "str_nat m = str_nat n \<Longrightarrow> m = n"
proof (induction m arbitrary: n rule: str_nat.induct)
  case (1 m)
  show ?case
  proof (cases "m < 10")
    case m: True
    show ?thesis
    proof (cases "n < 10")
      case True
      with m "1.prems" have "char_of (48 + m) = (char_of (48 + n) :: char)"
        by (simp del: str_nat.simps add: str_nat_small)
      then have "(of_char (char_of (48 + m) :: char) :: nat) = of_char (char_of (48 + n) :: char)"
        by (simp only:)
      with digit_char [OF m] digit_char [OF True] show ?thesis by (simp del: str_nat.simps)
    next
      case False
      with m "1.prems" str_nat_nonempty [of "n div 10"] show ?thesis
        by (simp del: str_nat.simps add: str_nat_small str_nat_big)
    qed
  next
    case m: False
    show ?thesis
    proof (cases "n < 10")
      case True
      with m "1.prems" str_nat_nonempty [of "m div 10"] show ?thesis
        by (simp del: str_nat.simps add: str_nat_small str_nat_big)
    next
      case False
      with m "1.prems" have e: "str_nat (m div 10) = str_nat (n div 10)"
        and d: "char_of (48 + m mod 10) = (char_of (48 + n mod 10) :: char)"
        by (simp_all del: str_nat.simps add: str_nat_big)
      from "1.IH" [OF m e] have q: "m div 10 = n div 10" .
      from d have "(of_char (char_of (48 + m mod 10) :: char) :: nat)
                     = of_char (char_of (48 + n mod 10) :: char)"
        by (simp only:)
      moreover have "m mod 10 < 10" "n mod 10 < 10" by simp_all
      ultimately have r: "m mod 10 = n mod 10"
        using digit_char [of "m mod 10"] digit_char [of "n mod 10"] by (simp del: str_nat.simps)
      from q r show ?thesis by (metis div_mult_mod_eq)
    qed
  qed
qed

lemma str_nat_no_sign: "str_nat n \<noteq> CHR ''-'' # s"
proof
  assume "str_nat n = CHR ''-'' # s"
  then have "CHR ''-'' \<in> set (str_nat n)" by (simp del: str_nat.simps)
  from str_nat_digits [OF this] show False by (simp add: is_digit_def)
qed

lemma str_int_inj: "str_int i = str_int j \<Longrightarrow> i = j"
proof -
  assume e: "str_int i = str_int j"
  show ?thesis
  proof (cases "i < 0")
    case i: True
    show ?thesis
    proof (cases "j < 0")
      case True
      with i e have "str_nat (nat (- i)) = str_nat (nat (- j))"
        by (simp del: str_nat.simps add: str_int_def)
      from str_nat_inj [OF this] i True show ?thesis by simp
    next
      case False
      with i e have "str_nat (nat j) = CHR ''-'' # str_nat (nat (- i))"
        by (simp del: str_nat.simps add: str_int_def)
      with str_nat_no_sign show ?thesis by blast
    qed
  next
    case i: False
    show ?thesis
    proof (cases "j < 0")
      case True
      with i e have "str_nat (nat i) = CHR ''-'' # str_nat (nat (- j))"
        by (simp del: str_nat.simps add: str_int_def)
      with str_nat_no_sign show ?thesis by blast
    next
      case False
      with i e have "str_nat (nat i) = str_nat (nat j)"
        by (simp del: str_nat.simps add: str_int_def)
      from str_nat_inj [OF this] i False show ?thesis by simp
    qed
  qed
qed

lemma str_int_no_colon: "CHR '':'' \<notin> set (str_int i)"
proof
  assume a: "CHR '':'' \<in> set (str_int i)"
  have "CHR '':'' \<in> set (str_nat (nat (- i))) \<or> CHR '':'' \<in> set (str_nat (nat i))"
  proof (cases "i < 0")
    case True
    with a show ?thesis by (simp del: str_nat.simps add: str_int_def)
  next
    case False
    with a show ?thesis by (simp del: str_nat.simps add: str_int_def)
  qed
  then have "is_digit CHR '':''" using str_nat_digits by blast
  then show False by (simp add: is_digit_def)
qed

lemma separator_unique:
  "x \<notin> set xs \<Longrightarrow> x \<notin> set ys \<Longrightarrow> xs @ x # a = ys @ x # b \<Longrightarrow> xs = ys \<and> a = b"
proof (induction xs arbitrary: ys)
  case Nil
  then show ?case by (cases ys) auto
next
  case (Cons c xs)
  then show ?case by (cases ys) auto
qed

lemma cache_key_eq_iff:
  "cache_key hash q' url' = cache_key hash q url \<longleftrightarrow> url' = url \<and> hash q' = hash q"
proof
  assume "cache_key hash q' url' = cache_key hash q url"
  then have "rev (url' @ CHR '':'' # str_int (hash q')) = rev (url @ CHR '':'' # str_int (hash q))"
    by (simp add: cache_key_def)
  then have e: "rev (str_int (hash q')) @ CHR '':'' # rev url'
             = rev (str_int (hash q)) @ CHR '':'' # rev url"
    by simp
  have n: "CHR '':'' \<notin> set (rev (str_int (hash q')))" "CHR '':'' \<notin> set (rev (str_int (hash q)))"
    using str_int_no_colon by simp_all
  from separator_unique [OF n e]
  have "rev (str_int (hash q')) = rev (str_int (hash q)) \<and> rev url' = rev url" .
  then show "url' = url \<and> hash q' = hash q"
    using str_int_inj by auto
next
  assume "url' = url \<and> hash q' = hash q"
  then show "cache_key hash q' url' = cache_key hash q url"
    by (simp add: cache_key_def)
qed

text \<open>
  Claim C3. The cache key is the document URL, a colon and the decimal text of \<open>hash(query)\<close>.
  \<open>should_use_cache\<close> is true exactly when the cache has an entry under that key and \<open>now\<close>
  minus its timestamp is below 3600. \<open>cache_result\<close> writes the entry under that key: after
  \<open>cache_result\<close> at time \<open>t0\<close> the answer is true at \<open>t0\<close> itself and false at any time more than
  3600 later, for the same URL and any question with the same hash; for another URL or a
  question with another hash the answer is what it was before the write, so it is false when
  the cache was empty.
\<close>

theorem should_use_cache_iff:
  "should_use_cache hash query_cache now query url
     = (\<exists>entry. query_cache (url @ '':'' @ str_int (hash query)) = Some entry
               \<and> now - timestamp entry < 3600)
   \<and> should_use_cache hash (cache_result hash query_cache t0 query url res) t1 query url
     = (t1 - t0 < 3600)
   \<and> should_use_cache hash (cache_result hash query_cache t0 query url res) t0 query url
   \<and> (3600 < t1 - t0 \<longrightarrow>
        \<not> should_use_cache hash (cache_result hash query_cache t0 query url res) t1 query url)
   \<and> cache_result hash query_cache t0 query url res
       = query_cache(url @ '':'' @ str_int (hash query) \<mapsto> \<lparr>result = res, timestamp = t0\<rparr>)
   \<and> (url' = url \<and> hash q' = hash query \<longrightarrow>
        should_use_cache hash (cache_result hash query_cache t0 query url res) t1 q' url'
          = (t1 - t0 < 3600))
   \<and> (url' \<noteq> url \<or> hash q' \<noteq> hash query \<longrightarrow>
        should_use_cache hash (cache_result hash query_cache t0 query url res) t1 q' url'
          = should_use_cache hash query_cache t1 q' url')
   \<and> (url' \<noteq> url \<or> hash q' \<noteq> hash query \<longrightarrow>
        \<not> should_use_cache hash (cache_result hash Map.empty t0 query url res) t1 q' url')"
proof -
  have k: "cache_key hash q' url' = cache_key hash query url \<longleftrightarrow> url' = url \<and> hash q' = hash query"
    by (rule cache_key_eq_iff)
  have a: "should_use_cache hash query_cache now query url
     = (\<exists>entry. query_cache (url @ '':'' @ str_int (hash query)) = Some entry
               \<and> now - timestamp entry < 3600)"
    by (auto simp: should_use_cache_def cache_key_def split: option.splits)
  have b: "should_use_cache hash (cache_result hash query_cache t0 query url res) t1 query url
     = (t1 - t0 < 3600)" for t1
    by (simp add: should_use_cache_def cache_result_def)
  have c: "cache_result hash query_cache t0 query url res
       = query_cache(url @ '':'' @ str_int (hash query) \<mapsto> \<lparr>result = res, timestamp = t0\<rparr>)"
    by (simp add: cache_result_def cache_key_def)
  have e: "url' = url \<and> hash q' = hash query \<longrightarrow>
        should_use_cache hash (cache_result hash query_cache t0 query url res) t1 q' url'
          = (t1 - t0 < 3600)"
    using k by (auto simp: should_use_cache_def cache_result_def)
  have f: "url' \<noteq> url \<or> hash q' \<noteq> hash query \<longrightarrow>
        should_use_cache hash (cache_result hash qc t0 query url res) t1 q' url'
          = should_use_cache hash qc t1 q' url'" for qc
    using k by (auto simp: should_use_cache_def cache_result_def)
  have g: "\<not> should_use_cache hash Map.empty t1 q' url'"
    by (simp add: should_use_cache_def)
  have b0: "should_use_cache hash (cache_result hash query_cache t0 query url res) t0 query url"
    using b [of t0] by simp
  have b1: "3600 < t1 - t0 \<longrightarrow>
        \<not> should_use_cache hash (cache_result hash query_cache t0 query url res) t1 query url"
    using b [of t1] by simp
  have h: "url' \<noteq> url \<or> hash q' \<noteq> hash query \<longrightarrow>
        \<not> should_use_cache hash (cache_result hash Map.empty t0 query url res) t1 q' url'"
    using f [of Map.empty] g by simp
  show ?thesis
    by (intro conjI) (rule a, rule b, rule b0, rule b1, rule c, rule e, rule f, rule h)
qed

theorem should_use_cache_iff_witness:
  "should_use_cache (\<lambda>q. int (length q)) (cache_result (\<lambda>q. int (length q)) Map.empty 1000
     ''What is the grace period?'' ''https://example.org/policy.pdf'' ''30 days.'') 1000
     ''What is the grace period?'' ''https://example.org/policy.pdf''
   \<and> (3600 :: real) < 4601 - 1000
   \<and> \<not> should_use_cache (\<lambda>q. int (length q)) (cache_result (\<lambda>q. int (length q)) Map.empty 1000
     ''What is the grace period?'' ''https://example.org/policy.pdf'' ''30 days.'') 4601
     ''What is the grace period?'' ''https://example.org/policy.pdf''
   \<and> int (length ''Why?'') \<noteq> int (length ''What is the grace period?'')
   \<and> \<not> should_use_cache (\<lambda>q. int (length q)) (cache_result (\<lambda>q. int (length q)) Map.empty 1000
     ''What is the grace period?'' ''https://example.org/policy.pdf'' ''30 days.'') 1000
     ''Why?'' ''https://example.org/policy.pdf''
   \<and> ''https://example.org/terms.pdf'' \<noteq> ''https://example.org/policy.pdf''
   \<and> \<not> should_use_cache (\<lambda>q. int (length q)) (cache_result (\<lambda>q. int (length q)) Map.empty 1000
     ''What is the grace period?'' ''https://example.org/policy.pdf'' ''30 days.'') 1000
     ''What is the grace period?'' ''https://example.org/terms.pdf''
   \<and> int (length ''Who is the policy holder?'') = int (length ''What is the grace period?'')
   \<and> should_use_cache (\<lambda>q. int (length q)) (cache_result (\<lambda>q. int (length q)) Map.empty 1000
     ''What is the grace period?'' ''https://example.org/policy.pdf'' ''30 days.'') 1000
     ''Who is the policy holder?'' ''https://example.org/policy.pdf''"
proof -
  let ?h = "\<lambda>q :: string. int (length q)"
  let ?q = "''What is the grace period?''"
  let ?u = "''https://example.org/policy.pdf''"
  let ?c = "cache_result ?h Map.empty 1000 ?q ?u ''30 days.''"
  have old: "(3600 :: real) < 4601 - 1000" by simp
  have q: "?u \<noteq> ?u \<or> ?h ''Why?'' \<noteq> ?h ?q" by simp
  have u: "''https://example.org/terms.pdf'' \<noteq> ?u \<or> ?h ?q \<noteq> ?h ?q" by simp
  have s: "?u = ?u \<and> ?h ''Who is the policy holder?'' = ?h ?q" by simp
  note late = should_use_cache_iff [of ?h Map.empty 1000 ?q ?u 1000 "''30 days.''" 4601]
  note other_q = should_use_cache_iff [of ?h Map.empty 1000 ?q ?u 1000 "''30 days.''" 1000 ?u "''Why?''"]
  note other_u = should_use_cache_iff [of ?h Map.empty 1000 ?q ?u 1000 "''30 days.''" 1000
      "''https://example.org/terms.pdf''" ?q]
  note same_h = should_use_cache_iff [of ?h Map.empty 1000 ?q ?u 1000 "''30 days.''" 1000 ?u
      "''Who is the policy holder?''"]
  have 1: "should_use_cache ?h ?c 1000 ?q ?u"
    by (rule late [THEN conjunct2, THEN conjunct2, THEN conjunct1])
  have 2: "\<not> should_use_cache ?h ?c 4601 ?q ?u"
    by (rule late [THEN conjunct2, THEN conjunct2, THEN conjunct2, THEN conjunct1, THEN mp, OF old])
  have 3: "\<not> should_use_cache ?h ?c 1000 ''Why?'' ?u"
    by (rule other_q [THEN conjunct2, THEN conjunct2, THEN conjunct2, THEN conjunct2,
          THEN conjunct2, THEN conjunct2, THEN conjunct2, THEN mp, OF q])
  have 4: "\<not> should_use_cache ?h ?c 1000 ?q ''https://example.org/terms.pdf''"
    by (rule other_u [THEN conjunct2, THEN conjunct2, THEN conjunct2, THEN conjunct2,
          THEN conjunct2, THEN conjunct2, THEN conjunct2, THEN mp, OF u])
  have "should_use_cache ?h ?c 1000 ''Who is the policy holder?'' ?u = ((1000 :: real) - 1000 < 3600)"
    by (rule same_h [THEN conjunct2, THEN conjunct2, THEN conjunct2, THEN conjunct2,
          THEN conjunct2, THEN conjunct1, THEN mp, OF s])
  then have 5: "should_use_cache ?h ?c 1000 ''Who is the policy holder?'' ?u" by simp
  have l: "int (length ''Why?'') \<noteq> int (length ?q)"
    "''https://example.org/terms.pdf'' \<noteq> ?u"
    "int (length ''Who is the policy holder?'') = int (length ?q)"
    by simp_all
  show ?thesis
    by (intro conjI) (rule 1, rule old, rule 2, rule l(1), rule 3, rule l(2), rule 4, rule l(3), rule 5)
qed

section \<open>Vector index: search\<close>

lemma py_get_in_range:
  "0 \<le> i \<Longrightarrow> i < int (length xs) \<Longrightarrow> py_get xs i = Inr (xs ! nat i)"
  by (simp add: py_get_def)

lemma py_get_minus_one: "xs \<noteq> [] \<Longrightarrow> py_get xs (- 1) = Inr (last xs)"
  by (cases xs rule: rev_cases) (simp_all add: py_get_def nth_append)

lemma collect_matches_hits:
  "\<forall>h \<in> set hits. 0 \<le> snd h \<and> snd h < int (length cs) \<Longrightarrow>
   collect_matches cs (hits @ rest) =
     (case collect_matches cs rest of
        Inl e \<Rightarrow> Inl e
      | Inr ms \<Rightarrow> Inr (map (\<lambda>h. to_match (cs ! nat (snd h)) (fst h)) hits @ ms))"
proof (induction hits)
  case Nil
  show ?case by (simp split: sum.splits)
next
  case (Cons h hits)
  obtain score idx where h: "h = (score, idx)" by (cases h)
  from Cons.prems h have "0 \<le> idx" "idx < int (length cs)" by auto
  with Cons h show ?case
    by (simp add: py_get_in_range split: sum.splits)
qed

lemma collect_matches_padding:
  "cs \<noteq> [] \<Longrightarrow>
   collect_matches cs (replicate p (pad, - 1)) = Inr (replicate p (to_match (last cs) pad))"
  by (induction p) (simp_all add: py_get_minus_one)

text \<open>
  Claim C10. Let the index hold the \<open>n \<ge> 1\<close> chunks of the service and let \<open>top_k\<close> be larger
  than \<open>n\<close>, so that the FAISS search returns the \<open>n\<close> labelled hits followed by \<open>top_k - n\<close>
  padding entries with label \<open>-1\<close>. Then \<open>search_similar_chunks\<close> returns \<open>top_k\<close> matches: those
  of the hits, followed by one match for every padding entry. Each of these extra matches has
  the content and the metadata of the last chunk of the service, the reference \<open>Chunk \<close>
  followed by the id of the last chunk, and the score of the padding entry.
\<close>

theorem search_similar_chunks_keeps_padding:
  assumes "index self = Some idx"
    and "chunks self \<noteq> []"
    and "int (length (chunks self)) < top_k"
    and "encode env [query] = Inr qv"
    and "index_search env idx qv top_k
           = Inr (hits @ replicate (nat (top_k - int (length (chunks self)))) (pad, - 1))"
    and "length hits = length (chunks self)"
    and "\<forall>h \<in> set hits. 0 \<le> snd h \<and> snd h < int (length (chunks self))"
  shows "\<exists>matches. search_similar_chunks env self query (Some top_k) = Inr matches
           \<and> matches = map (\<lambda>h. to_match (chunks self ! nat (snd h)) (fst h)) hits
                        @ replicate (nat (top_k - int (length (chunks self))))
                            (to_match (last (chunks self)) pad)
           \<and> int (length matches) = top_k
           \<and> length (chunks self) < length matches
           \<and> last matches = to_match (last (chunks self)) pad
           \<and> (\<forall>j. length (chunks self) \<le> j \<and> j < length matches \<longrightarrow>
                 matches ! j = \<lparr>content = content (last (chunks self)),
                                 metadata = metadata (last (chunks self)),
                                 similarity_score = pad,
                                 source_reference = ''Chunk '' @ chunk_id (last (chunks self))\<rparr>)
           \<and> (\<forall>j. j < length (chunks self) \<longrightarrow>
                 matches ! j = \<lparr>content = content (chunks self ! nat (snd (hits ! j))),
                                 metadata = metadata (chunks self ! nat (snd (hits ! j))),
                                 similarity_score = fst (hits ! j),
                                 source_reference
                                   = ''Chunk '' @ chunk_id (chunks self ! nat (snd (hits ! j)))\<rparr>)"
proof -
  let ?p = "nat (top_k - int (length (chunks self)))"
  let ?ms = "map (\<lambda>h. to_match (chunks self ! nat (snd h)) (fst h)) hits
               @ replicate ?p (to_match (last (chunks self)) pad)"
  have p: "0 < ?p" using assms(3) by simp
  have "collect_matches (chunks self) (hits @ replicate ?p (pad, - 1)) = Inr ?ms"
    using collect_matches_hits [OF assms(7)] collect_matches_padding [OF assms(2)] by simp
  with assms have r: "search_similar_chunks env self query (Some top_k) = Inr ?ms"
    by (simp add: search_similar_chunks_def)
  have n: "int (length ?ms) = top_k" "length (chunks self) < length ?ms"
    using assms(3,6) by simp_all
  have l: "last ?ms = to_match (last (chunks self)) pad"
    using p by simp
  have extra: "\<forall>j. length (chunks self) \<le> j \<and> j < length ?ms \<longrightarrow>
                 ?ms ! j = \<lparr>content = content (last (chunks self)),
                             metadata = metadata (last (chunks self)),
                             similarity_score = pad,
                             source_reference = ''Chunk '' @ chunk_id (last (chunks self))\<rparr>"
  proof (intro allI impI)
    fix j
    assume j: "length (chunks self) \<le> j \<and> j < length ?ms"
    with assms(6) have "j - length hits < ?p" by auto
    with j assms(6) show "?ms ! j = \<lparr>content = content (last (chunks self)),
                             metadata = metadata (last (chunks self)),
                             similarity_score = pad,
                             source_reference = ''Chunk '' @ chunk_id (last (chunks self))\<rparr>"
      by (simp add: nth_append to_match_def)
  qed
  have found: "\<forall>j. j < length (chunks self) \<longrightarrow>
                 ?ms ! j = \<lparr>content = content (chunks self ! nat (snd (hits ! j))),
                             metadata = metadata (chunks self ! nat (snd (hits ! j))),
                             similarity_score = fst (hits ! j),
                             source_reference
                               = ''Chunk '' @ chunk_id (chunks self ! nat (snd (hits ! j)))\<rparr>"
    using assms(6) by (simp add: nth_append to_match_def)
  from r n l extra found show ?thesis by blast
qed

theorem search_similar_chunks_keeps_padding_witness:
  "index \<lparr>index = Some (2 :: nat), chunks = [sample_chunk, second_chunk]\<rparr> = Some 2
   \<and> chunks \<lparr>index = Some (2 :: nat), chunks = [sample_chunk, second_chunk]\<rparr> \<noteq> []
   \<and> int (length [sample_chunk, second_chunk]) < 4
   \<and> search_similar_chunks padded_env \<lparr>index = Some 2, chunks = [sample_chunk, second_chunk]\<rparr>
        ''What is the grace period?'' (Some 4)
       = Inr [\<lparr>content = ''Claims are filed in 60 days.'', metadata = [''page_number'' \<mapsto> PInt 2],
               similarity_score = 9 / 10, source_reference = ''Chunk c1''\<rparr>,
              \<lparr>content = ''The grace period is 30 days.'', metadata = Map.empty,
               similarity_score = 7 / 10, source_reference = ''Chunk c0''\<rparr>,
              \<lparr>content = ''Claims are filed in 60 days.'', metadata = [''page_number'' \<mapsto> PInt 2],
               similarity_score = - FLT_MAX, source_reference = ''Chunk c1''\<rparr>,
              \<lparr>content = ''Claims are filed in 60 days.'', metadata = [''page_number'' \<mapsto> PInt 2],
               similarity_score = - FLT_MAX, source_reference = ''Chunk c1''\<rparr>]"
proof -
  let ?self = "\<lparr>index = Some (2 :: nat), chunks = [sample_chunk, second_chunk]\<rparr>"
  let ?hits = "[(9 / 10, 1), (7 / 10, 0)] :: (real \<times> int) list"
  have "\<exists>matches. search_similar_chunks padded_env ?self ''What is the grace period?'' (Some 4)
            = Inr matches
          \<and> matches = map (\<lambda>h. to_match (chunks ?self ! nat (snd h)) (fst h)) ?hits
                       @ replicate (nat (4 - int (length (chunks ?self))))
                           (to_match (last (chunks ?self)) (- FLT_MAX))
          \<and> int (length matches) = 4
          \<and> length (chunks ?self) < length matches
          \<and> last matches = to_match (last (chunks ?self)) (- FLT_MAX)
          \<and> (\<forall>j. length (chunks ?self) \<le> j \<and> j < length matches \<longrightarrow>
                 matches ! j = \<lparr>content = content (last (chunks ?self)),
                                 metadata = metadata (last (chunks ?self)),
                                 similarity_score = - FLT_MAX,
                                 source_reference = ''Chunk '' @ chunk_id (last (chunks ?self))\<rparr>)
          \<and> (\<forall>j. j < length (chunks ?self) \<longrightarrow>
                 matches ! j = \<lparr>content = content (chunks ?self ! nat (snd (?hits ! j))),
                                 metadata = metadata (chunks ?self ! nat (snd (?hits ! j))),
                                 similarity_score = fst (?hits ! j),
                                 source_reference
                                   = ''Chunk '' @ chunk_id (chunks ?self ! nat (snd (?hits ! j)))\<rparr>)"
    by (rule search_similar_chunks_keeps_padding [where idx = 2 and qv = "[25]"])
       (simp_all add: padded_env_def stub_env_def)
  then have "search_similar_chunks padded_env ?self ''What is the grace period?'' (Some 4)
       = Inr (map (\<lambda>h. to_match (chunks ?self ! nat (snd h)) (fst h)) ?hits
                @ replicate (nat (4 - int (length (chunks ?self))))
                    (to_match (last (chunks ?self)) (- FLT_MAX)))"
    by blast
  then show ?thesis
    by (simp add: to_match_def sample_chunk_def second_chunk_def numeral_2_eq_2)
qed


section \<open>Retrieval optimizer: diversity selection\<close>

lemma is_diverse_iff:
  "is_diverse c sel
     = list_all (\<lambda>s. calculate_text_similarity (content c) (content s) \<le> 0.8) sel"
  by (induction sel) (auto simp: not_less)

lemma spec_admit_full: "5 \<le> length sel \<Longrightarrow> spec_admit sel cs = sel"
  by (cases cs) simp_all

lemma select_loop_spec: "length sel < 5 \<Longrightarrow> select_loop sel cs = spec_admit sel cs"
proof (induction cs arbitrary: sel)
  case Nil
  show ?case by simp
next
  case (Cons c cs)
  show ?case
  proof (cases "is_diverse c sel")
    case False
    with Cons show ?thesis by (simp add: is_diverse_iff)
  next
    case True
    show ?thesis
    proof (cases "length sel < 4")
      case True
      with \<open>is_diverse c sel\<close> Cons show ?thesis by (simp add: is_diverse_iff)
    next
      case False
      with Cons.prems have "length (sel @ [c]) = 5" by simp
      with \<open>is_diverse c sel\<close> Cons.prems show ?thesis
        by (simp add: is_diverse_iff spec_admit_full)
    qed
  qed
qed

lemma sorted_chunks_descending:
  "sorted_wrt (\<lambda>a b. similarity_score b \<le> similarity_score a) (sorted_chunks ms)"
proof -
  have "sorted (map (\<lambda>x. - similarity_score x) (sorted_chunks ms))"
    by (simp add: sorted_chunks_def)
  then show ?thesis by (simp add: sorted_map)
qed

lemma sorted_chunks_stable:
  "filter (\<lambda>m. similarity_score m = k) (sorted_chunks ms) = filter (\<lambda>m. similarity_score m = k) ms"
  using sort_key_stable [of "\<lambda>x. - similarity_score x" "- k" ms]
  by (simp add: sorted_chunks_def)

text \<open>
  Claim C2. A list of at most three matches is returned unchanged. Otherwise the matches are
  sorted by descending score (a permutation of the input, equal scores in input order), the
  best one is kept and the others are admitted in that order as the specification words it
  (\<open>spec_admit\<close>: admitted exactly when the word overlap with every match selected so far is
  at most 0.8, nothing admitted once five are selected). In particular, when the sorted
  matches are \<open>m1, ..., m5\<close>, the overlap of \<open>m2\<close>, \<open>m3\<close>, \<open>m4\<close> with \<open>m1\<close> is above 0.8 and that of
  \<open>m5\<close> with \<open>m1\<close> is not, the result is \<open>[m1, m5]\<close>.
\<close>

theorem optimize_chunk_selection_spec:
  "(length ms \<le> 3 \<longrightarrow> optimize_chunk_selection ms query = ms)
   \<and> sorted_wrt (\<lambda>a b. similarity_score b \<le> similarity_score a) (sorted_chunks ms)
   \<and> mset (sorted_chunks ms) = mset ms
   \<and> (\<forall>k. filter (\<lambda>m. similarity_score m = k) (sorted_chunks ms)
           = filter (\<lambda>m. similarity_score m = k) ms)
   \<and> (3 < length ms \<longrightarrow>
        (\<exists>best rest. sorted_chunks ms = best # rest
           \<and> optimize_chunk_selection ms query = spec_admit [best] rest))
   \<and> (sorted_chunks ms = [m1, m2, m3, m4, m5]
        \<and> calculate_text_similarity (content m2) (content m1) > 0.8
        \<and> calculate_text_similarity (content m3) (content m1) > 0.8
        \<and> calculate_text_similarity (content m4) (content m1) > 0.8
        \<and> calculate_text_similarity (content m5) (content m1) \<le> 0.8
      \<longrightarrow> optimize_chunk_selection ms query = [m1, m5])"
proof -
  have len: "length (sorted_chunks ms) = length ms"
    by (simp add: sorted_chunks_def)
  have a: "length ms \<le> 3 \<longrightarrow> optimize_chunk_selection ms query = ms"
    by (simp add: optimize_chunk_selection_def)
  have b: "mset (sorted_chunks ms) = mset ms"
    by (simp add: sorted_chunks_def)
  have c: "3 < length ms \<longrightarrow>
        (\<exists>best rest. sorted_chunks ms = best # rest
           \<and> optimize_chunk_selection ms query = spec_admit [best] rest)"
  proof
    assume l: "3 < length ms"
    with len obtain best rest where s: "sorted_chunks ms = best # rest"
      by (cases "sorted_chunks ms") auto
    with l show "\<exists>best rest. sorted_chunks ms = best # rest
           \<and> optimize_chunk_selection ms query = spec_admit [best] rest"
      by (simp add: optimize_chunk_selection_def select_loop_spec)
  qed
  have d: "sorted_chunks ms = [m1, m2, m3, m4, m5]
        \<and> calculate_text_similarity (content m2) (content m1) > 0.8
        \<and> calculate_text_similarity (content m3) (content m1) > 0.8
        \<and> calculate_text_similarity (content m4) (content m1) > 0.8
        \<and> calculate_text_similarity (content m5) (content m1) \<le> 0.8
      \<longrightarrow> optimize_chunk_selection ms query = [m1, m5]"
  proof
    assume h: "sorted_chunks ms = [m1, m2, m3, m4, m5]
        \<and> calculate_text_similarity (content m2) (content m1) > 0.8
        \<and> calculate_text_similarity (content m3) (content m1) > 0.8
        \<and> calculate_text_similarity (content m4) (content m1) > 0.8
        \<and> calculate_text_similarity (content m5) (content m1) \<le> 0.8"
    with len have "length ms = 5" by simp
    with h show "optimize_chunk_selection ms query = [m1, m5]"
      by (simp add: optimize_chunk_selection_def)
  qed
  from a b c d sorted_chunks_descending sorted_chunks_stable show ?thesis by blast
qed

lemma five_sorted: "sorted_chunks five_matches = five_matches"
  by (simp add: sorted_chunks_def five_matches_def mk_match_def)

lemma words_abcdef: "split (lower ''a b c d e f'') = [''a'', ''b'', ''c'', ''d'', ''e'', ''f'']"
  by code_simp

lemma words_ABCDEF: "split (lower ''A B C D E F'') = [''a'', ''b'', ''c'', ''d'', ''e'', ''f'']"
  by code_simp

lemma words_abcdefg: "split (lower ''a b c d e f g'') = [''a'', ''b'', ''c'', ''d'', ''e'', ''f'', ''g'']"
  by code_simp

lemma words_xyz: "split (lower ''x y z'') = [''x'', ''y'', ''z'']"
  by code_simp

lemma jaccard_words:
  assumes "split (lower t1) = w1" and "split (lower t2) = w2"
    and "set w1 \<inter> set w2 = set i" and "set w1 \<union> set w2 = set u"
    and "distinct i" and "distinct u" and "u \<noteq> []"
  shows "calculate_text_similarity t1 t2 = real (length i) / real (length u)"
proof -
  have u: "set (split (lower t1)) \<union> set (split (lower t2)) = set u"
    using assms by simp
  have i: "set (split (lower t1)) \<inter> set (split (lower t2)) = set i"
    using assms by simp
  have "set u \<noteq> {}" using assms(7) by simp
  then show ?thesis
    unfolding calculate_text_similarity_def Let_def u i
    using assms(5,6) by (simp add: distinct_card)
qed

lemma overlap_same: "calculate_text_similarity ''a b c d e f'' ''a b c d e f'' = 1"
  using jaccard_words [OF words_abcdef words_abcdef,
      of "[''a'', ''b'', ''c'', ''d'', ''e'', ''f'']" "[''a'', ''b'', ''c'', ''d'', ''e'', ''f'']"]
  by simp

lemma overlap_upper: "calculate_text_similarity ''A B C D E F'' ''a b c d e f'' = 1"
  using jaccard_words [OF words_ABCDEF words_abcdef,
      of "[''a'', ''b'', ''c'', ''d'', ''e'', ''f'']" "[''a'', ''b'', ''c'', ''d'', ''e'', ''f'']"]
  by simp

lemma overlap_g: "calculate_text_similarity ''a b c d e f g'' ''a b c d e f'' = 6 / 7"
  using jaccard_words [OF words_abcdefg words_abcdef,
      of "[''a'', ''b'', ''c'', ''d'', ''e'', ''f'']" "[''a'', ''b'', ''c'', ''d'', ''e'', ''f'', ''g'']"]
  by auto

lemma overlap_xyz: "calculate_text_similarity ''x y z'' ''a b c d e f'' = 0"
  using jaccard_words [OF words_xyz words_abcdef,
      of "[]" "[''x'', ''y'', ''z'', ''a'', ''b'', ''c'', ''d'', ''e'', ''f'']"]
  by auto

theorem optimize_chunk_selection_spec_witness:
  "sorted_chunks five_matches = five_matches
   \<and> 3 < length five_matches
   \<and> calculate_text_similarity (content (five_matches ! 1)) (content (five_matches ! 0)) > 0.8
   \<and> calculate_text_similarity (content (five_matches ! 2)) (content (five_matches ! 0)) > 0.8
   \<and> calculate_text_similarity (content (five_matches ! 3)) (content (five_matches ! 0)) > 0.8
   \<and> calculate_text_similarity (content (five_matches ! 4)) (content (five_matches ! 0)) \<le> 0.8
   \<and> optimize_chunk_selection five_matches ''What is the grace period?''
       = [five_matches ! 0, five_matches ! 4]
   \<and> optimize_chunk_selection (take 3 five_matches) ''What is the grace period?''
       = take 3 five_matches"
proof -
  have s: "sorted_chunks five_matches
             = [five_matches ! 0, five_matches ! 1, five_matches ! 2, five_matches ! 3, five_matches ! 4]"
    unfolding five_sorted by (simp add: five_matches_def)
  have o: "calculate_text_similarity (content (five_matches ! 1)) (content (five_matches ! 0)) > 0.8"
     "calculate_text_similarity (content (five_matches ! 2)) (content (five_matches ! 0)) > 0.8"
     "calculate_text_similarity (content (five_matches ! 3)) (content (five_matches ! 0)) > 0.8"
     "calculate_text_similarity (content (five_matches ! 4)) (content (five_matches ! 0)) \<le> 0.8"
    by (simp_all add: five_matches_def mk_match_def overlap_same overlap_upper overlap_g overlap_xyz)
  have l: "length (take 3 five_matches) \<le> 3" by simp
  from s o l
    optimize_chunk_selection_spec [of five_matches "''What is the grace period?''"
      "five_matches ! 0" "five_matches ! 1" "five_matches ! 2" "five_matches ! 3" "five_matches ! 4"]
    optimize_chunk_selection_spec [of "take 3 five_matches" "''What is the grace period?''"]
  show ?thesis
    by (simp add: five_sorted five_matches_def)
qed

section \<open>Query orchestrator\<close>










end
